theory Spec2Isabelle
  imports Complex_Main "HOL-Library.AList"
begin

section \<open>Domain model (src/models.py)\<close>

text \<open>
  The pydantic models are plain typed records: the classes declare fields and nothing
  else (no validator, no constraint between fields). A \<^verbatim>\<open>datetime\<close> is a point on a
  linear time axis, modelled as a number of seconds; a \<^verbatim>\<open>float\<close> field is a
  \<^typ>\<open>real\<close>. The fields \<^verbatim>\<open>length\<close> of Train and Section are renamed, since
  \<^const>\<open>length\<close> is the list function.
\<close>

type_synonym datetime = int

datatype TrainType = EXPRESS | LOCAL | FREIGHT | MAINTENANCE | SPECIAL

datatype TrainPriority = HIGHEST | HIGH | MEDIUM | LOW | LOWEST


record Train =
  train_id :: string
  train_type :: TrainType
  priority :: TrainPriority
  current_position :: string
  destination :: string
  scheduled_arrival :: datetime
  actual_arrival :: "datetime option"
  delay :: int
  speed :: real
  train_length :: real

record Section =
  section_id :: string
  start_point :: string
  end_point :: string
  section_length :: real
  max_speed :: real
  capacity :: int
  signal_positions :: "real list"
  gradient :: real

record TrainMovement =
  train :: Train
  section_ref :: Section
  entry_time :: datetime
  exit_time :: datetime
  planned_speed :: real
  actual_speed :: "real option"
  status :: string

text \<open>
  Python exceptions, by class name and message (\<^verbatim>\<open>str(e)\<close>); the HTTP layer has its
  own exception with a status code and a detail string.
\<close>

datatype pyexc = PyExc string string




text \<open>
  Constructing a \<^verbatim>\<open>TrainMovement(...)\<close>: pydantic checks each argument against the
  type of its field, and the class has no other check, so every well-typed combination
  of values is accepted and stored as given.
\<close>

definition TrainMovement_init ::
  "Train \<Rightarrow> Section \<Rightarrow> datetime \<Rightarrow> datetime \<Rightarrow> real \<Rightarrow> real option \<Rightarrow> string
    \<Rightarrow> pyexc + TrainMovement" where
  "TrainMovement_init tr sec en ex ps acs st =
     Inr \<lparr>train = tr, section_ref = sec, entry_time = en, exit_time = ex,
          planned_speed = ps, actual_speed = acs, status = st\<rparr>"

section \<open>Settings (src/config.py)\<close>

definition SAFETY_BUFFER :: int where
  "SAFETY_BUFFER = 300"

section \<open>The optimization engine (src/optimization.py)\<close>

text \<open>
  The engine object holds one attribute, the handle of the constraint solver created in
  \<^verbatim>\<open>__init__\<close>. Methods take the engine and return it, so that a method that changed
  it would show.
\<close>

datatype solver_handle = Solver string

record OptimizationEngine =
  solver :: solver_handle

definition OptimizationEngine_init :: OptimizationEngine where
  "OptimizationEngine_init = \<lparr>solver = Solver ''TrainTrafficOptimizer''\<rparr>"

subsection \<open>create_time_space_grid\<close>

text \<open>
  A numpy array of two dimensions is its shape and its entries in row-major order.
  \<^verbatim>\<open>np.zeros((r, c))\<close> makes an array of 8-byte floats, in three steps. It converts
  each dimension to a signed 64-bit integer, and a Python int outside that range is a
  ValueError. It goes through the dimensions in order, starting from the item size:
  a dimension 0 is skipped, a negative one is a ValueError, and any other is multiplied
  into the size in bytes, which may not exceed the largest signed 64-bit integer. Then it
  allocates that many bytes, unless the array is empty; when the machine cannot, that is
  a MemoryError (its text, which spells out the size, is shortened here). How many bytes
  can be allocated is a fact of the machine: the parameter \<open>available\<close>.
\<close>

record ndarray =
  shape :: "nat \<times> nat"
  entries :: "real list"

definition intp_max :: int where
  "intp_max = 2 ^ 63 - 1"

definition dimension_error :: pyexc where
  "dimension_error = PyExc ''ValueError'' ''Maximum allowed dimension exceeded''"

definition negative_error :: pyexc where
  "negative_error = PyExc ''ValueError'' ''negative dimensions are not allowed''"

definition too_big_error :: pyexc where
  "too_big_error =
     PyExc ''ValueError''
       ''array is too big; `arr.size * arr.dtype.itemsize` is larger than the maximum possible size.''"

definition memory_error :: pyexc where
  "memory_error = PyExc ''MemoryError'' ''Unable to allocate the array''"

definition add_dimension :: "int \<Rightarrow> int \<Rightarrow> pyexc + int" where
  "add_dimension nbytes d =
     (if d = 0 then Inr nbytes
      else if d < 0 then Inl negative_error
      else if intp_max < nbytes * d then Inl too_big_error
      else Inr (nbytes * d))"

definition np_zeros :: "nat \<Rightarrow> int \<times> int \<Rightarrow> pyexc + ndarray" where
  "np_zeros available d =
     (case d of (r, c) \<Rightarrow>
        if r < - (2 ^ 63) \<or> intp_max < r \<or> c < - (2 ^ 63) \<or> intp_max < c
        then Inl dimension_error
        else case add_dimension 8 r of
               Inl e \<Rightarrow> Inl e
             | Inr row_bytes \<Rightarrow>
                 (case add_dimension row_bytes c of
                    Inl e \<Rightarrow> Inl e
                  | Inr nbytes \<Rightarrow>
                      if r \<noteq> 0 \<and> c \<noteq> 0 \<and> int available < nbytes then Inl memory_error
                      else Inr \<lparr>shape = (nat r, nat c),
                                entries = replicate (nat r * nat c) 0\<rparr>))"

definition create_time_space_grid ::
  "nat \<Rightarrow> OptimizationEngine \<Rightarrow> Section list \<Rightarrow> int \<Rightarrow> pyexc + ndarray" where
  "create_time_space_grid available self sections time_window =
     (let num_sections = int (length sections) in
      np_zeros available (time_window, num_sections))"

subsection \<open>detect_conflicts\<close>

text \<open>
  \<^verbatim>\<open>_check_conflict\<close> is declared to return a bool; its body is \<^verbatim>\<open>pass\<close>, so it
  returns \<^verbatim>\<open>None\<close>. The result is a \<^typ>\<open>bool option\<close>, with \<^const>\<open>None\<close> for
  Python's None, and \<open>truthy\<close> is the test the \<^verbatim>\<open>if\<close> of the caller makes.
\<close>

fun truthy :: "bool option \<Rightarrow> bool" where
  "truthy None = False"
| "truthy (Some b) = b"

type_synonym check_method =
  "OptimizationEngine \<Rightarrow> TrainMovement \<Rightarrow> TrainMovement \<Rightarrow> bool option \<times> OptimizationEngine"

definition check_conflict :: check_method where
  "check_conflict self movement1 movement2 = (None, self)"

text \<open>
  The two loops of \<^verbatim>\<open>detect_conflicts\<close>. The pairwise check is called as
  \<^verbatim>\<open>self._check_conflict\<close>, a method looked up on the object; the loops are written
  over that method, and \<open>detect_conflicts\<close> is the loops with the method of this
  class. The inner loop runs over the slice \<^verbatim>\<open>movements[i+1:]\<close>; it is written for
  any state the check threads and any representation of a movement, since it is used
  again below, where movements are objects in a store.
\<close>

type_synonym conflicts = "(TrainMovement \<times> TrainMovement) list"

definition inner_loop ::
  "('s \<Rightarrow> 'm \<Rightarrow> 'm \<Rightarrow> bool option \<times> 's) \<Rightarrow> 'm \<Rightarrow> 'm list
    \<Rightarrow> ('m \<times> 'm) list \<times> 's \<Rightarrow> ('m \<times> 'm) list \<times> 's" where
  "inner_loop chk mov1 rest acc =
     fold (\<lambda>mov2 (conflicts, self).
             case chk self mov1 mov2 of
               (r, self') \<Rightarrow>
                 (if truthy r then conflicts @ [(mov1, mov2)] else conflicts, self'))
          rest acc"

definition detect_conflicts_loops ::
  "check_method \<Rightarrow> OptimizationEngine \<Rightarrow> TrainMovement list
    \<Rightarrow> conflicts \<times> OptimizationEngine" where
  "detect_conflicts_loops chk self movements =
     fold (\<lambda>(i, mov1) acc. inner_loop chk mov1 (drop (i + 1) movements) acc)
          (enumerate 0 movements) ([], self)"

definition detect_conflicts ::
  "OptimizationEngine \<Rightarrow> TrainMovement list \<Rightarrow> conflicts \<times> OptimizationEngine" where
  "detect_conflicts self movements = detect_conflicts_loops check_conflict self movements"

subsection \<open>detect_conflicts over a store of objects\<close>

text \<open>
  In Python the engine, the list passed to \<^verbatim>\<open>detect_conflicts\<close> and the movements in
  it are mutable objects, and a method may change any object it can reach. To state what
  a call leaves unchanged, the same method is written over a store: the engine object,
  the movement objects by reference, and the list objects by reference (a list holds
  references). The check receives the store and may return a changed one; the check of
  this class, whose body is \<^verbatim>\<open>pass\<close>, returns it as it is.

  The outer loop follows Python's list iterator: at each step it compares its index with
  the current length of the list object and reads the current item, and the slice copies
  the current rest of the list. With a check that keeps lengthening the list the loop
  would not end, so the result is an option, \<^const>\<open>None\<close> for a call that does not
  return. The reported pairs hold references, as the tuples of the source do.
\<close>

type_synonym ref = nat

record store =
  self_obj :: OptimizationEngine
  movement_objs :: "ref \<Rightarrow> TrainMovement"
  list_objs :: "ref \<Rightarrow> ref list"

type_synonym store_check_method = "store \<Rightarrow> ref \<Rightarrow> ref \<Rightarrow> bool option \<times> store"

definition check_conflict_in_store :: store_check_method where
  "check_conflict_in_store st movement1 movement2 = (None, st)"

partial_function (option) outer_loop_in_store ::
  "store_check_method \<Rightarrow> ref \<Rightarrow> nat \<Rightarrow> (ref \<times> ref) list \<Rightarrow> store
    \<Rightarrow> ((ref \<times> ref) list \<times> store) option" where
  "outer_loop_in_store chk movements i conflicts st =
     (if i < length (list_objs st movements)
      then (let mov1 = list_objs st movements ! i;
                acc = inner_loop chk mov1 (drop (i + 1) (list_objs st movements))
                        (conflicts, st)
            in outer_loop_in_store chk movements (i + 1) (fst acc) (snd acc))
      else Some (conflicts, st))"

definition detect_conflicts_in_store ::
  "store \<Rightarrow> ref \<Rightarrow> ((ref \<times> ref) list \<times> store) option" where
  "detect_conflicts_in_store st movements =
     outer_loop_in_store check_conflict_in_store movements 0 [] st"

subsection \<open>optimize_schedule\<close>

text \<open>
  The private helpers of \<^verbatim>\<open>optimize_schedule\<close> all have the body \<^verbatim>\<open>pass\<close>: each
  returns None whatever it is given. A helper declared to return a value has an option
  type here, with \<^const>\<open>None\<close> for Python's None; the three \<^verbatim>\<open>_add_..._constraints\<close>
  helpers are called for their effect only and have none.
\<close>

datatype intvar = IntVar int int string

type_synonym variables = "((string \<times> string) \<times> intvar) list"

type_synonym constraint_dict = "(string \<times> int) list"

type_synonym assignment = "((string \<times> string) \<times> int) list"

definition create_time_matrix ::
  "OptimizationEngine \<Rightarrow> Train list \<Rightarrow> Section list \<Rightarrow> ndarray option" where
  "create_time_matrix self trains sections = None"

definition create_constraints ::
  "OptimizationEngine \<Rightarrow> Train list \<Rightarrow> Section list \<Rightarrow> constraint_dict option" where
  "create_constraints self trains sections = None"

definition add_safety_constraints ::
  "OptimizationEngine \<Rightarrow> variables \<Rightarrow> constraint_dict option \<Rightarrow> unit" where
  "add_safety_constraints self variables constraints = ()"

definition add_capacity_constraints ::
  "OptimizationEngine \<Rightarrow> variables \<Rightarrow> Section list \<Rightarrow> unit" where
  "add_capacity_constraints self variables sections = ()"

definition add_sequence_constraints ::
  "OptimizationEngine \<Rightarrow> variables \<Rightarrow> Train list \<Rightarrow> unit" where
  "add_sequence_constraints self variables trains = ()"

text \<open>
  \<^verbatim>\<open>time_matrix.shape[0]\<close>: an attribute access, which raises AttributeError when
  the time matrix is None. The text of the exception quotes two names with apostrophes.
\<close>

definition none_shape_message :: string where
  "none_shape_message =
     [CHR 0x27] @ ''NoneType'' @ [CHR 0x27] @ '' object has no attribute ''
       @ [CHR 0x27] @ ''shape'' @ [CHR 0x27]"

fun shape0 :: "ndarray option \<Rightarrow> pyexc + int" where
  "shape0 None = Inl (PyExc ''AttributeError'' none_shape_message)"
| "shape0 (Some a) = Inr (int (fst (shape a)))"

text \<open>
  The loops that fill the dictionary \<^verbatim>\<open>variables\<close>, keyed by (train id, section id):
  an association list in insertion order, where storing under a key already present
  replaces its value in place. The arguments of \<^verbatim>\<open>IntVar\<close> are evaluated before the
  call, so a failing \<^verbatim>\<open>time_matrix.shape\<close> ends the method at the first pair.
\<close>

fun section_loop ::
  "ndarray option \<Rightarrow> Train \<Rightarrow> Section list \<Rightarrow> variables \<Rightarrow> pyexc + variables" where
  "section_loop time_matrix tr [] variables = Inr variables"
| "section_loop time_matrix tr (sec # rest) variables =
     (case shape0 time_matrix of
        Inl e \<Rightarrow> Inl e
      | Inr n \<Rightarrow>
          section_loop time_matrix tr rest
            (AList.update (train_id tr, section_id sec)
               (IntVar 0 n (''time_'' @ train_id tr @ ''_'' @ section_id sec)) variables))"

fun train_loop ::
  "ndarray option \<Rightarrow> Train list \<Rightarrow> Section list \<Rightarrow> variables \<Rightarrow> pyexc + variables" where
  "train_loop time_matrix [] sections variables = Inr variables"
| "train_loop time_matrix (tr # rest) sections variables =
     (case section_loop time_matrix tr sections variables of
        Inl e \<Rightarrow> Inl e
      | Inr variables' \<Rightarrow> train_loop time_matrix rest sections variables')"

text \<open>
  The objective: \<^verbatim>\<open>sum(variables[k] for k in variables)\<close>. Python's \<^verbatim>\<open>sum\<close> starts
  from the integer 0 and adds the items from the left; adding solver variables builds an
  expression. The keys of a dictionary are distinct, so the values looked up key by key
  are the second components in order.
\<close>

datatype expr = Num int | Ref intvar | Plus expr expr

definition py_sum :: "expr list \<Rightarrow> expr" where
  "py_sum es = foldl Plus (Num 0) es"

definition objective_expr :: "variables \<Rightarrow> expr" where
  "objective_expr variables = py_sum (map (\<lambda>(k, v). Ref v) variables)"


datatype objective = Objective expr

definition solve_optimization ::
  "OptimizationEngine \<Rightarrow> variables \<Rightarrow> objective \<Rightarrow> assignment option" where
  "solve_optimization self variables obj = None"

definition create_movement_schedule ::
  "OptimizationEngine \<Rightarrow> assignment option \<Rightarrow> Train list \<Rightarrow> Section list
    \<Rightarrow> TrainMovement list option" where
  "create_movement_schedule self solution trains sections = None"

text \<open>
  \<^verbatim>\<open>optimize_schedule\<close>. The call \<^verbatim>\<open>self.solver.Minimize(...)\<close> goes into the
  OR-tools library, which is not part of the repository: it is the parameter
  \<open>minimize\<close>, free to return an objective or to raise. The result is the value of
  \<^verbatim>\<open>_create_movement_schedule\<close>, or the exception that ended the method. The
  variables the library would register in its solver are kept as values of the
  dictionary only.
\<close>

definition optimize_schedule ::
  "(expr \<Rightarrow> pyexc + objective) \<Rightarrow> OptimizationEngine \<Rightarrow> Train list \<Rightarrow> Section list
    \<Rightarrow> TrainMovement list \<Rightarrow> pyexc + TrainMovement list option" where
  "optimize_schedule minimize self trains sections current_movements =
     (let time_matrix = create_time_matrix self trains sections;
          constraints = create_constraints self trains sections
      in case train_loop time_matrix trains sections [] of
           Inl e \<Rightarrow> Inl e
         | Inr variables \<Rightarrow>
             (let u1 = add_safety_constraints self variables constraints;
                  u2 = add_capacity_constraints self variables sections;
                  u3 = add_sequence_constraints self variables trains
              in case minimize (objective_expr variables) of
                   Inl e \<Rightarrow> Inl e
                 | Inr obj \<Rightarrow>
                     (let solution = solve_optimization self variables obj
                      in Inr (create_movement_schedule self solution trains sections))))"

text \<open>
  The expression \<^verbatim>\<open>optimize_schedule\<close> hands to \<^verbatim>\<open>Minimize\<close>, or the exception that
  ends the method before: the part of the method down to the argument of that call.
\<close>

definition objective_of ::
  "OptimizationEngine \<Rightarrow> Train list \<Rightarrow> Section list \<Rightarrow> pyexc + expr" where
  "objective_of self trains sections =
     (case train_loop (create_time_matrix self trains sections) trains sections [] of
        Inl e \<Rightarrow> Inl e
      | Inr variables \<Rightarrow> Inr (objective_expr variables))"

section \<open>The HTTP endpoint (src/api.py)\<close>



section \<open>The specification's criteria, as the specification words them\<close>

text \<open>
  These definitions follow the specification's sentences and not the code; they are what
  the code is compared with. Two movements on one section conflict when the gap between
  them is below the buffer (a gap equal to the buffer is no conflict) and the section
  cannot hold both. A request is malformed when a speed or a length is not positive or a
  given movement does not enter before it leaves; the data model has no route, so a
  route over non-adjacent sections has no input that would express it.
\<close>

definition spec_pair_conflict :: "int \<Rightarrow> TrainMovement \<Rightarrow> TrainMovement \<Rightarrow> bool" where
  "spec_pair_conflict buffer m1 m2 =
     (section_id (section_ref m1) = section_id (section_ref m2)
      \<and> entry_time m2 < exit_time m1 + buffer
      \<and> entry_time m1 < exit_time m2 + buffer
      \<and> capacity (section_ref m1) < 2)"

definition spec_active_count :: "TrainMovement list \<Rightarrow> string \<Rightarrow> datetime \<Rightarrow> nat" where
  "spec_active_count movements sid t =
     length (filter (\<lambda>m. section_id (section_ref m) = sid
                          \<and> entry_time m \<le> t \<and> t < exit_time m) movements)"

definition spec_movement_invariant :: "TrainMovement \<Rightarrow> bool" where
  "spec_movement_invariant m =
     (entry_time m < exit_time m
      \<and> planned_speed m \<le> max_speed (section_ref m)
      \<and> status m \<in> {''Scheduled'', ''InProgress'', ''Completed'', ''Conflicted''})"



section \<open>Sample data (tests/test_system.py)\<close>

text \<open>
  The train and the section of the test fixtures, with the clock started at 0, and
  movements of such a train (under a given id) over a given section and interval, used
  as concrete inputs below.
\<close>

definition sample_train :: Train where
  "sample_train =
     \<lparr>train_id = ''TR001'', train_type = EXPRESS, priority = HIGH,
      current_position = ''A'', destination = ''B'', scheduled_arrival = 7200,
      actual_arrival = None, delay = 0, speed = 120, train_length = 200\<rparr>"

definition sample_section :: Section where
  "sample_section =
     \<lparr>section_id = ''SEC001'', start_point = ''A'', end_point = ''B'',
      section_length = 50, max_speed = 160, capacity = 3,
      signal_positions = [10, 25, 40], gradient = 1 / 2\<rparr>"

definition movement_on ::
  "string \<Rightarrow> Section \<Rightarrow> datetime \<Rightarrow> datetime \<Rightarrow> TrainMovement" where
  "movement_on tid sec en ex =
     \<lparr>train = sample_train\<lparr>train_id := tid\<rparr>, section_ref = sec, entry_time = en,
      exit_time = ex, planned_speed = 100, actual_speed = None, status = ''scheduled''\<rparr>"

text \<open>
  Two overlapping movements on a section of capacity 1; three mutually overlapping
  movements on a section of capacity 2.
\<close>

definition c1_section :: Section where
  "c1_section = sample_section\<lparr>capacity := 1\<rparr>"

definition c1_movements :: "TrainMovement list" where
  "c1_movements =
     [movement_on ''TR001'' c1_section 0 3600, movement_on ''TR002'' c1_section 1800 5400]"

definition c2_section :: Section where
  "c2_section = sample_section\<lparr>capacity := 2\<rparr>"

definition c2_movements :: "TrainMovement list" where
  "c2_movements =
     [movement_on ''TR001'' c2_section 0 3600, movement_on ''TR002'' c2_section 600 4200,
      movement_on ''TR003'' c2_section 1200 4800]"



definition c7_movement :: TrainMovement where
  "c7_movement =
     \<lparr>train = sample_train, section_ref = sample_section, entry_time = 3600, exit_time = 0,
      planned_speed = 500, actual_speed = None, status = ''bogus''\<rparr>"


text \<open>
  A store with the engine of the HTTP module, the list object 0 holding the movement
  objects 1 and 2, which are the two overlapping movements above.
\<close>

definition sample_store :: store where
  "sample_store =
     \<lparr>self_obj = OptimizationEngine_init,
      movement_objs = (\<lambda>r. if r = 1 then movement_on ''TR001'' c1_section 0 3600
                            else movement_on ''TR002'' c1_section 1800 5400),
      list_objs = (\<lambda>r. if r = 0 then [1, 2] else [])\<rparr>"

section \<open>Properties of the conflict detector\<close>

lemma inner_loop_stub:
  "inner_loop check_conflict mov1 rest (cs, self) = (cs, self)"
  by (induction rest) (simp_all add: inner_loop_def check_conflict_def)

lemma outer_loop_stub:
  "fold (\<lambda>(i, mov1) acc. inner_loop check_conflict mov1 (drop (i + 1) ms) acc) ps (cs, self)
     = (cs, self)"
  by (induction ps) (simp_all add: inner_loop_stub split: prod.splits)

lemma detect_conflicts_stub: "detect_conflicts self movements = ([], self)"
  unfolding detect_conflicts_def detect_conflicts_loops_def
  by (rule outer_loop_stub)

text \<open>
  C9. For every movement list, overlapping same-section movements included,
  \<^verbatim>\<open>detect_conflicts\<close> returns the empty list: \<^verbatim>\<open>_check_conflict\<close> returns None for
  every pair, and None is falsy.
\<close>

theorem detect_conflicts_always_empty:
  "fst (detect_conflicts self movements) = []
   \<and> fst (check_conflict self movement1 movement2) = None
   \<and> truthy (fst (check_conflict self movement1 movement2)) = False"
  by (simp add: detect_conflicts_stub check_conflict_def)

text \<open>
  The loops with a check that leaves the engine alone: each outer step appends, in
  order, the pairs of its movement with the later movements that the check flags.
\<close>

lemma inner_loop_pairs:
  "inner_loop (\<lambda>self a b. (f a b, self)) mov1 rest (cs, self)
     = (cs @ [(mov1, mov2). mov2 \<leftarrow> rest, truthy (f mov1 mov2)], self)"
  by (induction rest arbitrary: cs) (simp_all add: inner_loop_def)

lemma outer_loop_pairs:
  "fold (\<lambda>(i, mov1) acc. inner_loop (\<lambda>self a b. (f a b, self)) mov1 (g i) acc) ps (cs, self)
     = (cs @ concat (map (\<lambda>(i, mov1). [(mov1, mov2). mov2 \<leftarrow> g i, truthy (f mov1 mov2)]) ps),
        self)"
  by (induction ps arbitrary: cs) (simp_all add: inner_loop_pairs split: prod.splits)

text \<open>
  C1, at a failing input. Two movements of different trains on the same section of
  capacity 1, over [0, 3600] and [1800, 5400], with the configured buffer of 300
  seconds: the specification's criterion makes them a conflict, and
  \<^verbatim>\<open>detect_conflicts\<close> reports nothing, since \<^verbatim>\<open>_check_conflict\<close> is a stub whose
  comment lists the criteria still to implement.
\<close>

theorem overlapping_pair_unreported:
  "spec_pair_conflict SAFETY_BUFFER (movement_on ''TR001'' c1_section 0 3600)
       (movement_on ''TR002'' c1_section 1800 5400)
   \<and> fst (detect_conflicts OptimizationEngine_init c1_movements) = []"
  by (simp add: spec_pair_conflict_def SAFETY_BUFFER_def movement_on_def c1_section_def
      c1_movements_def sample_section_def detect_conflicts_stub)

text \<open>
  C2, the claim as stated fails: three movements on a section of capacity 2 are all
  active at the instant 1500, no pair of them meets the pairwise criterion, and
  \<^verbatim>\<open>detect_conflicts\<close> raises no conflict.
\<close>

theorem capacity_overflow_unreported:
  "capacity c2_section = 2
   \<and> spec_active_count c2_movements ''SEC001'' 1500 = 3
   \<and> \<not> spec_pair_conflict SAFETY_BUFFER (c2_movements ! 0) (c2_movements ! 1)
   \<and> \<not> spec_pair_conflict SAFETY_BUFFER (c2_movements ! 0) (c2_movements ! 2)
   \<and> \<not> spec_pair_conflict SAFETY_BUFFER (c2_movements ! 1) (c2_movements ! 2)
   \<and> fst (detect_conflicts OptimizationEngine_init c2_movements) = []"
  by (simp add: spec_active_count_def spec_pair_conflict_def c2_movements_def c2_section_def
      movement_on_def sample_section_def detect_conflicts_stub)

text \<open>
  C2, amended. \<^verbatim>\<open>detect_conflicts\<close> compares movements pairwise and counts no
  occupancy: whatever the pairwise check (one that leaves the engine alone), the result
  is exactly the pairs of a movement with a later movement of the list that the check
  flags, in loop order, and the engine is unchanged. A set of movements over a section's
  capacity is reported only through such pairs.
\<close>

theorem detect_conflicts_pairwise_only:
  "detect_conflicts_loops (\<lambda>self a b. (f a b, self)) self movements
     = (concat (map (\<lambda>(i, mov1).
                       [(mov1, mov2). mov2 \<leftarrow> drop (i + 1) movements, truthy (f mov1 mov2)])
                    (enumerate 0 movements)),
        self)"
  unfolding detect_conflicts_loops_def
  using outer_loop_pairs [of f "\<lambda>i. drop (i + 1) movements" "enumerate 0 movements" "[]" self]
  by simp

subsection \<open>The two ways of writing the loops agree\<close>

text \<open>
  For a check that reads its two movements and changes nothing, the call over the store
  reports, by reference, the pairs that the loops over values report for the movements
  the list holds: the index loop of the store and the loop over \<^verbatim>\<open>enumerate\<close> visit
  the same pairs in the same order.
\<close>

lemma inner_loop_reading:
  "inner_loop (\<lambda>st a b. (f st a b, st)) mov1 rest (cs, st)
     = (cs @ [(mov1, mov2). mov2 \<leftarrow> rest, truthy (f st mov1 mov2)], st)"
  by (induction rest arbitrary: cs) (simp_all add: inner_loop_def)

lemma outer_loop_in_store_pairs:
  "outer_loop_in_store (\<lambda>st a b. (f st a b, st)) movements i cs st
     = Some (cs @ concat (map (\<lambda>j. [(list_objs st movements ! j, mov2).
                                        mov2 \<leftarrow> drop (j + 1) (list_objs st movements),
                                        truthy (f st (list_objs st movements ! j) mov2)])
                              [i..<length (list_objs st movements)]),
             st)"
proof (induction "length (list_objs st movements) - i" arbitrary: i cs)
  case 0
  then show ?case
    by (subst outer_loop_in_store.simps) simp
next
  case (Suc n)
  then have lt: "i < length (list_objs st movements)" by simp
  have n: "n = length (list_objs st movements) - (i + 1)"
    using Suc.hyps(2) by simp
  show ?case
    using lt Suc.hyps(1) [OF n]
    by (subst outer_loop_in_store.simps)
       (simp add: Let_def inner_loop_reading upt_conv_Cons)
qed

lemma enumerate_map_nth:
  "map (\<lambda>(i, x). h i x) (enumerate 0 xs) = map (\<lambda>j. h j (xs ! j)) [0..<length xs]"
  by (rule nth_equalityI) (simp_all add: nth_enumerate_eq)

lemma deref_pairs:
  "map (\<lambda>(a, b). (d a, d b)) [(x, y). y \<leftarrow> ys, P (d x) (d y)]
     = [(d x, y'). y' \<leftarrow> map d ys, P (d x) y']"
  by (induction ys) simp_all

lemma detect_conflicts_in_store_agrees:
  "map_option (\<lambda>(cs, st'). (map (\<lambda>(a, b). (movement_objs st' a, movement_objs st' b)) cs, self_obj st'))
           (outer_loop_in_store (\<lambda>st a b. (g (movement_objs st a) (movement_objs st b), st)) movements 0 [] st)
         = Some (detect_conflicts_loops (\<lambda>self a b. (g a b, self)) (self_obj st)
                   (map (movement_objs st) (list_objs st movements)))"
proof -
  let ?xs = "list_objs st movements"
  let ?ms = "map (movement_objs st) ?xs"
  have right: "detect_conflicts_loops (\<lambda>self a b. (g a b, self)) (self_obj st) ?ms
      = (concat (map (\<lambda>(i, mov1). [(mov1, mov2). mov2 \<leftarrow> drop (i + 1) ?ms, truthy (g mov1 mov2)])
                    (enumerate 0 ?ms)), self_obj st)"
    unfolding detect_conflicts_loops_def
    using outer_loop_pairs [of g "\<lambda>i. drop (i + 1) ?ms" "enumerate 0 ?ms" "[]" "self_obj st"]
    by simp
  have idx: "map (\<lambda>(i, mov1). [(mov1, mov2). mov2 \<leftarrow> drop (i + 1) ?ms, truthy (g mov1 mov2)])
                (enumerate 0 ?ms)
           = map (\<lambda>j. [(?ms ! j, mov2). mov2 \<leftarrow> drop (j + 1) ?ms, truthy (g (?ms ! j) mov2)])
                [0..<length ?xs]"
    using enumerate_map_nth [of "\<lambda>i mov1. [(mov1, mov2). mov2 \<leftarrow> drop (i + 1) ?ms, truthy (g mov1 mov2)]" ?ms]
    by simp
  have each: "map (\<lambda>(a, b). (movement_objs st a, movement_objs st b))
                [(?xs ! j, mov2). mov2 \<leftarrow> drop (j + 1) ?xs, truthy (g (movement_objs st (?xs ! j)) (movement_objs st mov2))]
            = [(?ms ! j, mov2). mov2 \<leftarrow> drop (j + 1) ?ms, truthy (g (?ms ! j) mov2)]"
    if "j < length ?xs" for j
  proof -
    have nm: "?ms ! j = movement_objs st (?xs ! j)" using that by simp
    show ?thesis
      unfolding nm drop_map
      by (rule deref_pairs [where d = "movement_objs st" and x = "?xs ! j" and ys = "drop (j + 1) ?xs"
            and P = "\<lambda>a b. truthy (g a b)"])
  qed
  let ?F = "\<lambda>(a, b). (movement_objs st a, movement_objs st b)"
  let ?A = "\<lambda>j. [(?xs ! j, mov2). mov2 \<leftarrow> drop (j + 1) ?xs,
                                     truthy (g (movement_objs st (?xs ! j)) (movement_objs st mov2))]"
  let ?B = "\<lambda>j. [(?ms ! j, mov2). mov2 \<leftarrow> drop (j + 1) ?ms, truthy (g (?ms ! j) mov2)]"
  have left: "map ?F (concat (map ?A [0..<length ?xs])) = concat (map ?B [0..<length ?xs])"
  proof -
    have "map (map ?F \<circ> ?A) [0..<length ?xs] = map ?B [0..<length ?xs]"
    proof (rule map_cong [OF refl])
      fix j
      assume "j \<in> set [0..<length ?xs]"
      then have "j < length ?xs" by simp
      then show "(map ?F \<circ> ?A) j = ?B j"
        unfolding o_apply by (rule each)
    qed
    then show ?thesis by (simp only: map_concat map_map)
  qed
  show ?thesis
    unfolding outer_loop_in_store_pairs right idx
    using left by (simp del: map_concat)
qed

subsection \<open>What a call leaves unchanged\<close>

text \<open>
  The loops write nothing themselves: with any check that returns its state as it got
  it, the inner loop does so too, and the call over the store returns and leaves the
  store as it was.
\<close>

lemma inner_loop_frame:
  assumes "\<And>st a b. snd (chk st a b) = st"
  shows "snd (inner_loop chk mov1 rest (cs, st)) = st"
  using assms
proof (induction rest arbitrary: cs)
  case Nil
  then show ?case by (simp add: inner_loop_def)
next
  case (Cons mov2 rest)
  obtain r where r: "chk st mov1 mov2 = (r, st)"
    using Cons.prems [of st mov1 mov2] by (cases "chk st mov1 mov2") simp
  have "inner_loop chk mov1 (mov2 # rest) (cs, st)
          = inner_loop chk mov1 rest (if truthy r then cs @ [(mov1, mov2)] else cs, st)"
    by (simp add: inner_loop_def r)
  then show ?case
    using Cons.IH [OF Cons.prems] by simp
qed

lemma outer_loop_in_store_frame:
  assumes "\<And>st a b. snd (chk st a b) = st"
  shows "\<exists>cs'. outer_loop_in_store chk movements i cs st = Some (cs', st)"
proof (induction "length (list_objs st movements) - i" arbitrary: i cs)
  case 0
  then show ?case
    by (subst outer_loop_in_store.simps) simp
next
  case (Suc n)
  then have lt: "i < length (list_objs st movements)" by simp
  let ?acc = "inner_loop chk (list_objs st movements ! i)
                (drop (i + 1) (list_objs st movements)) (cs, st)"
  have same: "snd ?acc = st"
    by (rule inner_loop_frame [OF assms])
  have n: "n = length (list_objs st movements) - (i + 1)"
    using Suc.hyps(2) by simp
  obtain cs' where "outer_loop_in_store chk movements (i + 1) (fst ?acc) st = Some (cs', st)"
    using Suc.hyps(1) [OF n] by blast
  then show ?case
    using lt same by (subst outer_loop_in_store.simps) (simp add: Let_def)
qed

text \<open>
  With the check of this class, by induction on the number of items the outer loop has
  still to visit.
\<close>

lemma inner_loop_in_store_stub:
  "inner_loop check_conflict_in_store mov1 rest (cs, st) = (cs, st)"
  by (induction rest) (simp_all add: inner_loop_def check_conflict_in_store_def)

lemma outer_loop_in_store_stub:
  "outer_loop_in_store check_conflict_in_store movements i cs st = Some (cs, st)"
proof (induction "length (list_objs st movements) - i" arbitrary: i)
  case 0
  then show ?case
    by (subst outer_loop_in_store.simps) simp
next
  case (Suc n)
  then have lt: "i < length (list_objs st movements)" by simp
  have n: "n = length (list_objs st movements) - (i + 1)"
    using Suc.hyps(2) by simp
  show ?case
    using lt Suc.hyps(1) [OF n]
    by (subst outer_loop_in_store.simps) (simp add: Let_def inner_loop_in_store_stub)
qed

lemma detect_conflicts_in_store_stub:
  "detect_conflicts_in_store st movements = Some ([], st)"
  by (simp add: detect_conflicts_in_store_def outer_loop_in_store_stub)

text \<open>
  The call on the sample store, computed step by step from the definitions: the list
  object 0 holds the two overlapping movements.
\<close>

lemma detect_conflicts_in_store_sample:
  "detect_conflicts_in_store sample_store 0 = Some ([], sample_store)"
  unfolding detect_conflicts_in_store_def
  apply (subst outer_loop_in_store.simps)
  apply (subst outer_loop_in_store.simps)
  apply (subst outer_loop_in_store.simps)
  apply (simp add: sample_store_def Let_def inner_loop_def check_conflict_in_store_def)
  done

text \<open>
  C8. \<^verbatim>\<open>detect_conflicts\<close> is a pure function. Over the store, for every store and
  every list object, the call returns and the store after it is the store before it: the
  engine, the list passed in and every movement object are unchanged, so a second call
  with the same list starts from the same store and returns the same conflict list.
  Over values, the engine comes back as it went in, the result does not depend on the
  engine, and a second call made after the first returns the same.
\<close>

theorem detect_conflicts_pure:
  "detect_conflicts_in_store st movements = Some ([], st)
   \<and> snd (detect_conflicts self ms) = self
   \<and> fst (detect_conflicts self ms) = fst (detect_conflicts self' ms)
   \<and> detect_conflicts (snd (detect_conflicts self ms)) ms = detect_conflicts self ms"
  by (simp add: detect_conflicts_in_store_stub detect_conflicts_stub)

section \<open>Properties of the time-space grid\<close>

lemma add_dimension_ok:
  assumes "0 \<le> d" and "nbytes * d \<le> intp_max" and "0 < nbytes"
  shows "add_dimension nbytes d = Inr (if d = 0 then nbytes else nbytes * d)"
  using assms by (simp add: add_dimension_def)

text \<open>
  C10, the claim as stated fails: a time window of 2^63 is non-negative, and for it
  \<^verbatim>\<open>np.zeros\<close> raises the ValueError of a dimension that does not fit a signed 64-bit
  integer, whatever memory the machine has; \<^verbatim>\<open>create_time_space_grid\<close> returns no
  grid.
\<close>

theorem time_window_too_large:
  "(0::int) \<le> 2 ^ 63
   \<and> (\<forall>available.
         create_time_space_grid available OptimizationEngine_init [sample_section] (2 ^ 63)
           = Inl (PyExc ''ValueError'' ''Maximum allowed dimension exceeded''))"
  by (simp add: create_time_space_grid_def np_zeros_def intp_max_def dimension_error_def)

text \<open>
  C10, amended. For every section list (a Python list has fewer than 2^60 items) and
  every non-negative time window for which numpy can make the array, that is, the size
  in bytes 8 * time_window * max(1, number of sections) is below 2^63 and the
  8 * time_window * number of sections bytes of the entries can be allocated,
  \<^verbatim>\<open>create_time_space_grid\<close> returns a matrix of shape (time_window, number of
  sections) whose entries are all zero. The method takes no trains and no movements, so
  the grid cannot reflect occupancy.
\<close>

theorem create_time_space_grid_zero:
  assumes "0 \<le> time_window"
    and "length sections < 2 ^ 60"
    and "8 * time_window * max 1 (int (length sections)) < 2 ^ 63"
    and "8 * time_window * int (length sections) \<le> int available"
  shows "\<exists>grid. create_time_space_grid available self sections time_window = Inr grid
           \<and> shape grid = (nat time_window, length sections)
           \<and> length (entries grid) = nat time_window * length sections
           \<and> (\<forall>x \<in> set (entries grid). x = 0)"
proof -
  let ?n = "int (length sections)"
  let ?row = "if time_window = 0 then 8 else 8 * time_window"
  have n60: "?n < 2 ^ 60" using assms(2) by simp
  have le: "8 * time_window \<le> 8 * time_window * max 1 ?n"
    using assms(1) by (simp add: mult_le_cancel_left1)
  then have tw: "8 * time_window \<le> intp_max"
    using assms(3) by (simp add: intp_max_def)
  then have tw': "time_window \<le> intp_max" using assms(1) by simp
  have row: "add_dimension 8 time_window = Inr ?row"
    using add_dimension_ok [of time_window 8] assms(1) tw by simp
  have fit: "?row * ?n \<le> intp_max"
  proof (cases "time_window = 0")
    case True
    then show ?thesis using n60 by (simp add: intp_max_def)
  next
    case False
    show ?thesis
    proof (cases "?n = 0")
      case True
      then show ?thesis using False by (simp add: intp_max_def)
    next
      case nz: False
      then have "1 \<le> ?n" by (cases sections) simp_all
      then have "max 1 ?n = ?n" by (simp only: max_absorb2)
      then show ?thesis using False assms(3) by (simp add: intp_max_def)
    qed
  qed
  have pos: "0 < ?row"
    using assms(1) by simp
  have col: "add_dimension ?row ?n = Inr (if ?n = 0 then ?row else ?row * ?n)"
    using add_dimension_ok [OF _ fit pos] by simp
  have mem: "\<not> (time_window \<noteq> 0 \<and> ?n \<noteq> 0
               \<and> int available < (if ?n = 0 then ?row else ?row * ?n))"
    using assms(4) by auto
  have range: "\<not> (time_window < - (2 ^ 63) \<or> intp_max < time_window
                   \<or> ?n < - (2 ^ 63) \<or> intp_max < ?n)"
    using assms(1) tw' n60 by (simp add: intp_max_def)
  have "create_time_space_grid available self sections time_window
          = Inr \<lparr>shape = (nat time_window, nat ?n),
                 entries = replicate (nat time_window * nat ?n) 0\<rparr>"
    unfolding create_time_space_grid_def np_zeros_def Let_def
    using range mem by (simp only: prod.case row col sum.case if_False)
  then show ?thesis by simp
qed

theorem create_time_space_grid_zero_witness:
  "(0::int) \<le> 2
   \<and> length [sample_section] < 2 ^ 60
   \<and> 8 * 2 * max 1 (int (length [sample_section])) < (2::int) ^ 63
   \<and> 8 * 2 * int (length [sample_section]) \<le> int 1024
   \<and> (\<exists>grid. create_time_space_grid 1024 OptimizationEngine_init [sample_section] 2 = Inr grid
           \<and> shape grid = (nat 2, length [sample_section])
           \<and> length (entries grid) = nat 2 * length [sample_section]
           \<and> (\<forall>x \<in> set (entries grid). x = 0))"
  using create_time_space_grid_zero [of 2 "[sample_section]" 1024 OptimizationEngine_init]
  by simp

section \<open>Properties of optimize_schedule\<close>

text \<open>
  With the time matrix the repository computes (None), the loops fail at the first
  (train, section) pair; without such a pair they leave the dictionary empty. So
  \<^verbatim>\<open>optimize_schedule\<close> has three outcomes: the AttributeError, whatever the library
  raises for the empty objective, or None. It never returns a list of movements, and
  its body never mentions the movements it is given.
\<close>

lemma train_loop_None:
  "train_loop None trains sections vars
     = (if trains \<noteq> [] \<and> sections \<noteq> [] then Inl (PyExc ''AttributeError'' none_shape_message)
        else Inr vars)"
proof (cases sections)
  case Nil
  then show ?thesis by (induction trains) simp_all
next
  case (Cons sec rest)
  then show ?thesis by (cases trains) simp_all
qed

lemma optimize_schedule_outcome:
  "optimize_schedule minimize self trains sections current_movements
     = (if trains \<noteq> [] \<and> sections \<noteq> [] then Inl (PyExc ''AttributeError'' none_shape_message)
        else case minimize (Num 0) of Inl e \<Rightarrow> Inl e | Inr obj \<Rightarrow> Inr None)"
  by (simp add: optimize_schedule_def create_time_matrix_def create_constraints_def
      solve_optimization_def create_movement_schedule_def train_loop_None
      objective_expr_def py_sum_def Let_def split: sum.splits)

lemma optimize_schedule_never_a_schedule:
  "optimize_schedule minimize self trains sections current_movements \<noteq> Inr (Some schedule)"
  by (simp add: optimize_schedule_outcome split: sum.splits)

lemma optimize_schedule_ignores_movements:
  "optimize_schedule minimize self trains sections current_movements
     = optimize_schedule minimize self trains sections current_movements'"
  by (simp add: optimize_schedule_def)




section \<open>Properties of the movement model\<close>

text \<open>
  C7, the claim as stated fails: the constructor accepts a movement that leaves before
  it enters, is planned faster than its section allows and has a status outside the four
  names, and \<^verbatim>\<open>detect_conflicts\<close> accepts it without complaint.
\<close>

theorem movement_invariant_counterexample:
  "TrainMovement_init sample_train sample_section 3600 0 500 None ''bogus'' = Inr c7_movement
   \<and> exit_time c7_movement < entry_time c7_movement
   \<and> max_speed (section_ref c7_movement) < planned_speed c7_movement
   \<and> status c7_movement \<notin> {''Scheduled'', ''InProgress'', ''Completed'', ''Conflicted''}
   \<and> \<not> spec_movement_invariant c7_movement
   \<and> fst (detect_conflicts OptimizationEngine_init [c7_movement]) = []"
  by (simp add: TrainMovement_init_def c7_movement_def spec_movement_invariant_def
      sample_section_def detect_conflicts_stub)

text \<open>
  C7, amended. No relation between the times of a movement, no bound on its planned
  speed and no status vocabulary is enforced anywhere. For every train, section, entry
  and exit time, planned speed, optional actual speed and status string: the constructor
  accepts them and stores each as given; \<^verbatim>\<open>detect_conflicts\<close> returns normally on
  every list that holds the movement, as an object of a store, which it leaves as it
  was, and as a value; and \<^verbatim>\<open>optimize_schedule\<close> has the same outcome with the
  movement among the current movements as without it.
\<close>

theorem movements_unconstrained:
  "\<exists>m. TrainMovement_init tr sec en ex ps acs st = Inr m
       \<and> train m = tr \<and> section_ref m = sec \<and> entry_time m = en \<and> exit_time m = ex
       \<and> planned_speed m = ps \<and> actual_speed m = acs \<and> status m = st
       \<and> (\<exists>conflicts.
             detect_conflicts_in_store (store\<lparr>movement_objs := (movement_objs store)(r := m)\<rparr>)
                 movements
               = Some (conflicts, store\<lparr>movement_objs := (movement_objs store)(r := m)\<rparr>))
       \<and> (\<exists>conflicts. detect_conflicts self (before @ m # after) = (conflicts, self))
       \<and> optimize_schedule minimize self trains sections (before @ m # after)
           = optimize_schedule minimize self trains sections (before @ after)"
proof -
  let ?m = "\<lparr>train = tr, section_ref = sec, entry_time = en, exit_time = ex,
             planned_speed = ps, actual_speed = acs, status = st\<rparr>"
  have init: "TrainMovement_init tr sec en ex ps acs st = Inr ?m"
    by (simp add: TrainMovement_init_def)
  have opt: "optimize_schedule minimize self trains sections (before @ ?m # after)
               = optimize_schedule minimize self trains sections (before @ after)"
    by (rule optimize_schedule_ignores_movements)
  show ?thesis
    using init opt by (simp add: detect_conflicts_in_store_stub detect_conflicts_stub)
qed

section \<open>Properties of the objective\<close>



text \<open>
  \<open>objective_of\<close> is the argument of the call of \<^verbatim>\<open>Minimize\<close> in
  \<^verbatim>\<open>optimize_schedule\<close>; without sections it is the constant 0, the sum of no
  variables.
\<close>

lemma optimize_schedule_minimizes:
  "optimize_schedule minimize self trains sections current_movements
     = (case objective_of self trains sections of
          Inl e \<Rightarrow> Inl e
        | Inr ob \<Rightarrow> (case minimize ob of Inl e \<Rightarrow> Inl e | Inr obj \<Rightarrow> Inr None))"
  by (simp add: optimize_schedule_def objective_of_def Let_def solve_optimization_def
      create_movement_schedule_def split: sum.splits)






end
